theory Spec2Isabelle
  imports Main
begin

text \<open>
  A shallow embedding of the image-fusion application: the upload handlers of the
  component (\<open>handleFileChange\<close>, the readers' \<open>onload\<close>, \<open>handleRemoveImage\<close>,
  \<open>handleSubmit\<close>) and the request pipeline \<open>mergeImagesWithAI\<close>, with the external
  generation service as a parameter and the requests it receives as a log.
\<close>

section \<open>Data model (types.ts)\<close>

text \<open>
  JavaScript strings are modelled as \<^typ>\<open>string\<close>; a character stands for one code
  unit below 256. \<open>null\<close> and \<open>undefined\<close> are \<^const>\<open>None\<close>.
  Of the browser's \<open>File\<close> only the two fields the code reads are kept.
\<close>

record File =
  name :: string
  ftype :: string

record UploadedImage =
  img_id :: string
  img_file :: File
  base64 :: string
  mimeType :: string

record GeneratedResult =
  result_image :: "string option"
  result_text :: "string option"

subsection \<open>The parts of a request and of a response\<close>

text \<open>
  \<open>Part\<close> is the library's type for both directions: an optional \<open>inlineData\<close>
  blob and an optional \<open>text\<close>. Of a candidate of the response the code reads
  \<open>content.parts\<close>; the library declares both \<open>content\<close> and \<open>parts\<close> optional (a
  candidate that was blocked carries no content), so both may be \<open>undefined\<close>.
\<close>

record Blob =
  blob_mimeType :: string
  data :: string

record Part =
  inlineData :: "Blob option"
  part_text :: "string option"

datatype Modality = IMAGE | TEXT

record GenerateContentRequest =
  model :: string
  contents :: "Part list"
  responseModalities :: "Modality list"

record Content =
  content_parts :: "Part list option"

record Candidate =
  content :: "Content option"

record GenerateContentResponse =
  candidates :: "Candidate list option"

text \<open>
  What a \<open>throw\<close> carries: an \<open>Error\<close> instance with its message, or any other value.
\<close>

datatype thrown = Error string | NonError

text \<open>
  The external generation service, \<open>ai.models.generateContent\<close>: it answers a request
  with a response or throws.
\<close>

type_synonym transport = "GenerateContentRequest \<Rightarrow> thrown + GenerateContentResponse"

section \<open>String primitives of the host language\<close>

text \<open>\<open>s.split(sep)\<close> for a separator of one character: never an empty list.\<close>

fun split_str :: "char \<Rightarrow> string \<Rightarrow> string list" where
  "split_str sep [] = [[]]"
| "split_str sep (c # cs) =
     (if c = sep then [] # split_str sep cs
      else (case split_str sep cs of
              [] \<Rightarrow> [[c]]
            | s # ss \<Rightarrow> (c # s) # ss))"

text \<open>\<open>xs[i]\<close>: \<open>undefined\<close> out of range.\<close>

fun index :: "'a list \<Rightarrow> nat \<Rightarrow> 'a option" where
  "index [] i = None"
| "index (x # xs) 0 = Some x"
| "index (x # xs) (Suc i) = index xs i"

text \<open>
  \<open>s.trim()\<close>: white space and line terminators are dropped at both ends. Among the
  code units below 256 these are TAB, LF, VT, FF, CR, SPACE and NBSP.
\<close>

definition isWhiteSpace :: "char \<Rightarrow> bool" where
  "isWhiteSpace c =
     (c \<in> set [CHR 0x09, CHR 0x0A, CHR 0x0B, CHR 0x0C, CHR 0x0D, CHR 0x20, CHR 0xA0])"

definition trim :: "string \<Rightarrow> string" where
  "trim s = rev (dropWhile isWhiteSpace (rev (dropWhile isWhiteSpace s)))"

text \<open>A number in a template literal: its decimal digits.\<close>

fun decimal :: "nat \<Rightarrow> string" where
  "decimal n =
     (if n < 10 then [char_of (48 + n)]
      else decimal (n div 10) @ [char_of (48 + n mod 10)])"

declare decimal.simps [simp del]

section \<open>Fusion Request Pipeline (services/geminiService.ts)\<close>

definition fullPrompt :: "string \<Rightarrow> string" where
  "fullPrompt backgroundPrompt =
     ''Merge the subjects from the provided images into a single, cohesive new image. ''
     @ ''The new background for this scene should be: '' @ [CHR 0x22] @ backgroundPrompt
     @ [CHR 0x22]
     @ ''. Please ensure the lighting and shadows on the subjects match the new ''
     @ ''background for a realistic and natural look.''"

text \<open>
  The callback of \<open>images.map\<close>: the segment at index 1 of the payload split at commas;
  \<open>undefined\<close> and the empty string are both falsy and throw.
\<close>

definition imagePart :: "UploadedImage \<Rightarrow> thrown + Part" where
  "imagePart img =
     (case index (split_str CHR '','' (base64 img)) 1 of
        None \<Rightarrow> Inl (Error (''Invalid base64 data for image '' @ name (img_file img)))
      | Some base64Data \<Rightarrow>
          if base64Data = []
          then Inl (Error (''Invalid base64 data for image '' @ name (img_file img)))
          else Inr \<lparr>inlineData = Some \<lparr>blob_mimeType = mimeType img, data = base64Data\<rparr>,
                    part_text = None\<rparr>)"

text \<open>\<open>images.map\<close> with a callback that may throw: the first throw ends the map.\<close>

fun mapImages :: "UploadedImage list \<Rightarrow> thrown + Part list" where
  "mapImages [] = Inr []"
| "mapImages (img # imgs) =
     (case imagePart img of
        Inl e \<Rightarrow> Inl e
      | Inr p \<Rightarrow> (case mapImages imgs of
                   Inl e \<Rightarrow> Inl e
                 | Inr ps \<Rightarrow> Inr (p # ps)))"

definition buildParts :: "UploadedImage list \<Rightarrow> string \<Rightarrow> thrown + Part list" where
  "buildParts images backgroundPrompt =
     (case mapImages images of
        Inl e \<Rightarrow> Inl e
      | Inr ps \<Rightarrow> Inr (\<lparr>inlineData = None, part_text = Some (fullPrompt backgroundPrompt)\<rparr> # ps))"

definition buildRequest :: "Part list \<Rightarrow> GenerateContentRequest" where
  "buildRequest parts =
     \<lparr>model = ''gemini-2.5-flash-image-preview'', contents = parts,
      responseModalities = [IMAGE, TEXT]\<rparr>"

text \<open>The template \<open>data:${mimeType};base64,${data}\<close>.\<close>

definition dataURI :: "string \<Rightarrow> string \<Rightarrow> string" where
  "dataURI mime payload = ''data:'' @ mime @ '';base64,'' @ payload"

text \<open>The body of the loop over the parts of the first candidate.\<close>

definition scanPart :: "GeneratedResult \<Rightarrow> Part \<Rightarrow> GeneratedResult" where
  "scanPart result part =
     (case inlineData part of
        Some b \<Rightarrow> result\<lparr>result_image := Some (dataURI (blob_mimeType b) (data b))\<rparr>
      | None \<Rightarrow>
          (case part_text part of
             None \<Rightarrow> result
           | Some t \<Rightarrow> if t = [] then result else result\<lparr>result_text := Some t\<rparr>))"

text \<open>
  The messages of the engine's \<open>TypeError\<close> when \<open>parts\<close> is read of an undefined
  \<open>content\<close>, and when the loop is given an undefined \<open>parts\<close> (the wording is V8's).
\<close>

definition readPartsOfUndefined :: string where
  "readPartsOfUndefined =
     ''Cannot read properties of undefined (reading '' @ [CHR 0x27] @ ''parts''
     @ [CHR 0x27] @ '')''"

definition partsNotIterable :: string where
  "partsNotIterable = ''response.candidates[0].content.parts is not iterable''"

text \<open>
  The guard on \<open>candidates\<close> and the loop over \<open>candidates[0].content.parts\<close>, which is
  read without a guard.
\<close>

definition scanResponse :: "GenerateContentResponse \<Rightarrow> thrown + GeneratedResult" where
  "scanResponse response =
     (case candidates response of
        None \<Rightarrow> Inr \<lparr>result_image = None, result_text = None\<rparr>
      | Some [] \<Rightarrow> Inr \<lparr>result_image = None, result_text = None\<rparr>
      | Some (c # cs) \<Rightarrow>
          (case content c of
             None \<Rightarrow> Inl (Error readPartsOfUndefined)
           | Some ct \<Rightarrow>
               (case content_parts ct of
                  None \<Rightarrow> Inl (Error partsNotIterable)
                | Some ps \<Rightarrow> Inr (foldl scanPart \<lparr>result_image = None, result_text = None\<rparr> ps))))"

text \<open>\<open>!result.image\<close>: \<open>null\<close> and the empty string are falsy.\<close>

definition falsy :: "string option \<Rightarrow> bool" where
  "falsy v = (case v of None \<Rightarrow> True | Some s \<Rightarrow> s = [])"

text \<open>
  The \<open>try\<close> block. The first component of the result is the log of the requests
  dispatched to the service, in order.
\<close>

definition tryBlock ::
  "transport \<Rightarrow> UploadedImage list \<Rightarrow> string
    \<Rightarrow> GenerateContentRequest list \<times> (thrown + GeneratedResult)" where
  "tryBlock generateContent images backgroundPrompt =
     (case buildParts images backgroundPrompt of
        Inl e \<Rightarrow> ([], Inl e)
      | Inr parts \<Rightarrow>
          (case generateContent (buildRequest parts) of
             Inl e \<Rightarrow> ([buildRequest parts], Inl e)
           | Inr response \<Rightarrow>
               (case scanResponse response of
                  Inl e \<Rightarrow> ([buildRequest parts], Inl e)
                | Inr result \<Rightarrow>
                    (if falsy (result_image result)
                     then ([buildRequest parts],
                           Inl (Error (''The AI did not return an image. Please try adjusting ''
                                       @ ''your prompt or using different images.'')))
                     else ([buildRequest parts], Inr result)))))"

text \<open>The \<open>catch\<close> clause: every throw leaves as an \<open>Error\<close> with a new message.\<close>

definition catchClause :: "thrown \<Rightarrow> thrown" where
  "catchClause error =
     (case error of
        Error message \<Rightarrow> Error (''Failed to generate image: '' @ message)
      | NonError \<Rightarrow> Error ''An unknown error occurred during image generation.'')"

definition mergeImagesWithAI ::
  "transport \<Rightarrow> UploadedImage list \<Rightarrow> string
    \<Rightarrow> GenerateContentRequest list \<times> (thrown + GeneratedResult)" where
  "mergeImagesWithAI generateContent images backgroundPrompt =
     (case tryBlock generateContent images backgroundPrompt of
        (calls, Inl e) \<Rightarrow> (calls, Inl (catchClause e))
      | (calls, Inr result) \<Rightarrow> (calls, Inr result))"

section \<open>Image Intake and submission (App.tsx)\<close>

text \<open>
  The component's state is the five \<open>useState\<close> cells. A call of \<open>handleFileChange\<close>
  leaves behind one batch: the closure shared by the readers it started, holding
  \<open>files.length\<close>, the array \<open>newImages\<close> and the files whose reader has not fired.
  Each handler runs against the state of the latest render.
\<close>

record Batch =
  files_length :: nat
  newImages :: "UploadedImage list"
  readers :: "File list"

record AppState =
  uploadedImages :: "UploadedImage list"
  backgroundPrompt :: string
  isLoading :: bool
  error :: "string option"
  generatedResult :: "GeneratedResult option"
  batches :: "Batch list"

definition initialState :: AppState where
  "initialState =
     \<lparr>uploadedImages = [], backgroundPrompt = [], isLoading = False, error = None,
      generatedResult = None, batches = []\<rparr>"

definition allowedTypes :: "string list" where
  "allowedTypes = [''image/jpeg'', ''image/png'', ''image/webp'']"

text \<open>
  The callback of \<open>forEach\<close>, on the pending value of \<open>error\<close> and the files given to
  a reader so far. \<open>newImages\<close> is passed as the loop sees it.
\<close>

definition forEachFile ::
  "UploadedImage list \<Rightarrow> UploadedImage list \<Rightarrow> string option \<times> File list \<Rightarrow> File
    \<Rightarrow> string option \<times> File list" where
  "forEachFile uploaded newImgs acc f =
     (case acc of (err, started) \<Rightarrow>
        if length uploaded + length newImgs \<ge> 5
        then (Some ''You can upload a maximum of 5 images.'', started)
        else if ftype f \<notin> set allowedTypes
        then (Some (''File type '' @ ftype f
                    @ '' is not supported. Please use JPG, PNG, or WEBP.''), started)
        else (err, started @ [f]))"

text \<open>
  \<open>handleFileChange\<close>: the loop is synchronous and every \<open>onload\<close> fires after it, so
  the loop runs with \<open>newImages\<close> empty; \<open>setError(null)\<close> follows the loop.
\<close>

definition handleFileChange :: "File list option \<Rightarrow> AppState \<Rightarrow> AppState" where
  "handleFileChange files s =
     (case files of
        None \<Rightarrow> s
      | Some fs \<Rightarrow>
          (case foldl (forEachFile (uploadedImages s) []) (error s, []) fs of
             (err, started) \<Rightarrow>
               (s\<lparr>error := err,
                  batches := batches s
                    @ [\<lparr>files_length = length fs, newImages = [], readers = started\<rparr>]\<rparr>)
               \<lparr>error := None\<rparr>))"

text \<open>
  \<open>reader.onload\<close> of the reader at position \<open>fi\<close> among those of batch \<open>bi\<close> still to
  fire, with \<open>e.target.result\<close> (a string or not) and the value of \<open>Date.now()\<close>.
\<close>

definition onload :: "nat \<Rightarrow> nat \<Rightarrow> string option \<Rightarrow> nat \<Rightarrow> AppState \<Rightarrow> AppState" where
  "onload bi fi res now s =
     (if bi < length (batches s) \<and> fi < length (readers (batches s ! bi))
      then
        (let b = batches s ! bi;
             f = readers b ! fi;
             rest = take fi (readers b) @ drop (Suc fi) (readers b)
         in case res of
              None \<Rightarrow> s\<lparr>batches := (batches s)[bi := b\<lparr>readers := rest\<rparr>]\<rparr>
            | Some str \<Rightarrow>
                (let pushed = newImages b
                       @ [\<lparr>img_id = name f @ ''-'' @ decimal now, img_file = f,
                           base64 = str, mimeType = ftype f\<rparr>];
                     s' = s\<lparr>batches := (batches s)[bi := b\<lparr>newImages := pushed, readers := rest\<rparr>]\<rparr>
                 in if length pushed = files_length b
                    then s'\<lparr>uploadedImages := uploadedImages s' @ pushed\<rparr>
                    else s'))
      else s)"

definition handleRemoveImage :: "string \<Rightarrow> AppState \<Rightarrow> AppState" where
  "handleRemoveImage i s =
     s\<lparr>uploadedImages := filter (\<lambda>img. img_id img \<noteq> i) (uploadedImages s)\<rparr>"

subsection \<open>Sequences of intake operations\<close>

datatype event =
  FileChange "File list option"
| ReaderLoad nat nat "string option" nat
| RemoveImage string

fun step :: "AppState \<Rightarrow> event \<Rightarrow> AppState" where
  "step s (FileChange files) = handleFileChange files s"
| "step s (ReaderLoad bi fi res now) = onload bi fi res now s"
| "step s (RemoveImage i) = handleRemoveImage i s"

definition run :: "event list \<Rightarrow> AppState \<Rightarrow> AppState" where
  "run evs s = foldl step s evs"

subsection \<open>Submission\<close>

text \<open>
  \<open>handleSubmit\<close>, from the click to the end of its \<open>finally\<close>, with the requests the
  service received.
\<close>

definition handleSubmit ::
  "transport \<Rightarrow> AppState \<Rightarrow> GenerateContentRequest list \<times> AppState" where
  "handleSubmit generateContent s =
     (if length (uploadedImages s) < 2 \<or> trim (backgroundPrompt s) = []
      then ([], s\<lparr>error :=
                  Some (''Please upload at least 2 images and provide a ''
                        @ ''background description.'')\<rparr>)
      else
        (let s1 = s\<lparr>error := None, isLoading := True, generatedResult := None\<rparr>
         in case mergeImagesWithAI generateContent (uploadedImages s) (backgroundPrompt s) of
              (calls, Inr result) \<Rightarrow>
                (calls, s1\<lparr>generatedResult := Some result, isLoading := False\<rparr>)
            | (calls, Inl (Error message)) \<Rightarrow>
                (calls, s1\<lparr>error := Some message, isLoading := False\<rparr>)
            | (calls, Inl NonError) \<Rightarrow>
                (calls, s1\<lparr>error := Some ''An unexpected error occurred.'',
                           isLoading := False\<rparr>)))"

section \<open>Notions of the specification, and fixtures\<close>

text \<open>
  The payload with its data-URI prefix stripped, in the specification's words: what
  follows the first comma.
\<close>

definition stripDataURIPrefix :: "string \<Rightarrow> string" where
  "stripDataURIPrefix s = drop 1 (dropWhile (\<lambda>c. c \<noteq> CHR '','') s)"

text \<open>
  The specification's reading of the response scan: the data URIs of the parts with
  inline data, the texts of the text parts (no inline data, a text that is not empty),
  and the last element of either list.
\<close>

definition imageURIs :: "Part list \<Rightarrow> string list" where
  "imageURIs ps =
     List.map_filter
       (\<lambda>p. case inlineData p of
               None \<Rightarrow> None
             | Some b \<Rightarrow> Some (dataURI (blob_mimeType b) (data b))) ps"

definition texts :: "Part list \<Rightarrow> string list" where
  "texts ps =
     List.map_filter
       (\<lambda>p. if inlineData p = None \<and> part_text p \<noteq> Some [] then part_text p else None) ps"

definition lastOf :: "'a list \<Rightarrow> 'a option" where
  "lastOf xs = (case rev xs of [] \<Rightarrow> None | x # _ \<Rightarrow> Some x)"

text \<open>
  A response without inline image data where the code looks for it: no candidate, or a
  first candidate whose parts carry none.
\<close>

definition noInlineData :: "GenerateContentResponse \<Rightarrow> bool" where
  "noInlineData response =
     (case candidates response of
        None \<Rightarrow> True
      | Some [] \<Rightarrow> True
      | Some (c # cs) \<Rightarrow>
          (case content c of
             None \<Rightarrow> False
           | Some ct \<Rightarrow>
               (case content_parts ct of
                  None \<Rightarrow> False
                | Some ps \<Rightarrow> list_all (\<lambda>p. inlineData p = None) ps)))"

text \<open>The inline part of a request, for an image and the payload it is to carry.\<close>

definition inlinePart :: "UploadedImage \<Rightarrow> string \<Rightarrow> Part" where
  "inlinePart img payload =
     \<lparr>inlineData = Some \<lparr>blob_mimeType = mimeType img, data = payload\<rparr>, part_text = None\<rparr>"

definition instructionPart :: "string \<Rightarrow> Part" where
  "instructionPart prompt = \<lparr>inlineData = None, part_text = Some (fullPrompt prompt)\<rparr>"

text \<open>Files, and the record \<open>onload\<close> stores for a file read as a data URI.\<close>

definition pngFile :: "string \<Rightarrow> File" where
  "pngFile n = \<lparr>name = n, ftype = ''image/png''\<rparr>"

definition gifFile :: "string \<Rightarrow> File" where
  "gifFile n = \<lparr>name = n, ftype = ''image/gif''\<rparr>"

definition encoded :: "File \<Rightarrow> string \<Rightarrow> nat \<Rightarrow> UploadedImage" where
  "encoded f payload now =
     \<lparr>img_id = name f @ ''-'' @ decimal now, img_file = f,
      base64 = dataURI (ftype f) payload, mimeType = ftype f\<rparr>"

text \<open>
  Stub services: one image part and one text part; a text part only; two of each; a
  candidate without content, as the service sends for a blocked request.
\<close>

definition stubResponse :: GenerateContentResponse where
  "stubResponse =
     \<lparr>candidates =
        Some [\<lparr>content = Some \<lparr>content_parts = Some
               [\<lparr>inlineData = Some \<lparr>blob_mimeType = ''image/png'', data = ''AAAA''\<rparr>,
                 part_text = None\<rparr>,
                \<lparr>inlineData = None, part_text = Some ''A fused scene.''\<rparr>]\<rparr>\<rparr>]\<rparr>"

definition stubTransport :: transport where
  "stubTransport request = Inr stubResponse"

definition textOnlyResponse :: GenerateContentResponse where
  "textOnlyResponse =
     \<lparr>candidates =
        Some [\<lparr>content = Some \<lparr>content_parts = Some
               [\<lparr>inlineData = None, part_text = Some ''A fused scene.''\<rparr>]\<rparr>\<rparr>]\<rparr>"

definition textOnlyTransport :: transport where
  "textOnlyTransport request = Inr textOnlyResponse"

definition lastWinsResponse :: GenerateContentResponse where
  "lastWinsResponse =
     \<lparr>candidates =
        Some [\<lparr>content = Some \<lparr>content_parts = Some
               [\<lparr>inlineData = None, part_text = Some ''first''\<rparr>,
                \<lparr>inlineData = Some \<lparr>blob_mimeType = ''image/png'', data = ''AAAA''\<rparr>,
                 part_text = None\<rparr>,
                \<lparr>inlineData = Some \<lparr>blob_mimeType = ''image/webp'', data = ''BBBB''\<rparr>,
                 part_text = None\<rparr>,
                \<lparr>inlineData = None, part_text = Some ''second''\<rparr>]\<rparr>\<rparr>]\<rparr>"

definition lastWinsTransport :: transport where
  "lastWinsTransport request = Inr lastWinsResponse"

definition blockedResponse :: GenerateContentResponse where
  "blockedResponse = \<lparr>candidates = Some [\<lparr>content = None\<rparr>]\<rparr>"

definition blockedTransport :: transport where
  "blockedTransport request = Inr blockedResponse"

text \<open>Uploaded images: two well-formed ones, and one whose base64 segment is missing.\<close>

definition imageA :: UploadedImage where
  "imageA = encoded (pngFile ''a.png'') ''QUJD'' 1000"

definition imageB :: UploadedImage where
  "imageB = encoded (pngFile ''b.png'') ''REVG'' 1001"

definition brokenImage :: UploadedImage where
  "brokenImage = encoded (pngFile ''broken.png'') [] 1002"

text \<open>
  The invariant of the intake: only allowed types among the records of the collection,
  among the records read so far in any batch, and among the files being read.
\<close>

definition typesAllowed :: "AppState \<Rightarrow> bool" where
  "typesAllowed s =
     (list_all (\<lambda>img. mimeType img \<in> set allowedTypes) (uploadedImages s)
      \<and> list_all (\<lambda>b. list_all (\<lambda>img. mimeType img \<in> set allowedTypes) (newImages b)
                      \<and> list_all (\<lambda>f. ftype f \<in> set allowedTypes) (readers b))
           (batches s))"

text \<open>
  Intake scenarios: one PNG file, read; a PNG file and a GIF file in one batch, the PNG
  read; six PNG files in one batch, all read; a collection of five and one more file.
\<close>

definition onePngRead :: "event list" where
  "onePngRead =
     [FileChange (Some [pngFile ''a.png'']),
      ReaderLoad 0 0 (Some (dataURI ''image/png'' ''QUJD'')) 1000]"

definition pngAndGifRead :: "event list" where
  "pngAndGifRead =
     [FileChange (Some [pngFile ''a.png'', gifFile ''b.gif'']),
      ReaderLoad 0 0 (Some (dataURI ''image/png'' ''QUJD'')) 1000]"

definition sixFiles :: "File list" where
  "sixFiles =
     [pngFile ''1.png'', pngFile ''2.png'', pngFile ''3.png'', pngFile ''4.png'',
      pngFile ''5.png'', pngFile ''6.png'']"

definition sixPngRead :: "event list" where
  "sixPngRead =
     [FileChange (Some sixFiles),
      ReaderLoad 0 0 (Some (dataURI ''image/png'' ''QUJD'')) 1000,
      ReaderLoad 0 0 (Some (dataURI ''image/png'' ''QUJD'')) 1000,
      ReaderLoad 0 0 (Some (dataURI ''image/png'' ''QUJD'')) 1000,
      ReaderLoad 0 0 (Some (dataURI ''image/png'' ''QUJD'')) 1000,
      ReaderLoad 0 0 (Some (dataURI ''image/png'' ''QUJD'')) 1000,
      ReaderLoad 0 0 (Some (dataURI ''image/png'' ''QUJD'')) 1000]"

definition fiveAccepted :: AppState where
  "fiveAccepted =
     initialState\<lparr>uploadedImages :=
       [encoded (pngFile ''1.png'') ''QUJD'' 1000, encoded (pngFile ''2.png'') ''QUJD'' 1000,
        encoded (pngFile ''3.png'') ''QUJD'' 1000, encoded (pngFile ''4.png'') ''QUJD'' 1000,
        encoded (pngFile ''5.png'') ''QUJD'' 1000]\<rparr>"

section \<open>Splitting at commas\<close>

lemma split_str_no_sep: "sep \<notin> set s \<Longrightarrow> split_str sep s = [s]"
  by (induction s) auto

lemma split_str_append:
  "sep \<notin> set a \<Longrightarrow> split_str sep (a @ sep # b) = a # split_str sep b"
  by (induction a) auto

lemma index_split_first_comma:
  "sep \<notin> set a \<Longrightarrow> sep \<notin> set b \<Longrightarrow> index (split_str sep (a @ sep # b)) 1 = Some b"
  by (simp add: split_str_append split_str_no_sep)

lemma dataURI_segment:
  assumes "CHR '','' \<notin> set mime" "CHR '','' \<notin> set payload"
  shows "index (split_str CHR '','' (dataURI mime payload)) 1 = Some payload"
proof -
  have "dataURI mime payload = (''data:'' @ mime @ '';base64'') @ CHR '','' # payload"
    by (simp add: dataURI_def)
  moreover have "CHR '','' \<notin> set (''data:'' @ mime @ '';base64'')"
    using assms(1) by simp
  ultimately show ?thesis
    using assms(2) index_split_first_comma[of "CHR '',''" "''data:'' @ mime @ '';base64''" payload]
    by simp
qed

lemma strip_decompose:
  assumes "stripDataURIPrefix s \<noteq> []"
  shows "s = takeWhile (\<lambda>c. c \<noteq> CHR '','') s @ CHR '','' # stripDataURIPrefix s"
proof -
  let ?d = "dropWhile (\<lambda>c. c \<noteq> CHR '','') s"
  from assms have "?d \<noteq> []" unfolding stripDataURIPrefix_def by (metis drop_Nil)
  then have "hd ?d = CHR '',''" using hd_dropWhile[of "\<lambda>c. c \<noteq> CHR '',''" s] by simp
  with \<open>?d \<noteq> []\<close> have "?d = CHR '','' # stripDataURIPrefix s"
    by (cases ?d) (auto simp: stripDataURIPrefix_def)
  then show ?thesis by (metis takeWhile_dropWhile_id)
qed

lemma strip_segment:
  assumes "stripDataURIPrefix s \<noteq> []" "CHR '','' \<notin> set (stripDataURIPrefix s)"
  shows "index (split_str CHR '','' s) 1 = Some (stripDataURIPrefix s)"
proof -
  have "CHR '','' \<notin> set (takeWhile (\<lambda>c. c \<noteq> CHR '','') s)"
    by (auto dest: set_takeWhileD)
  then have "index (split_str CHR '',''
                (takeWhile (\<lambda>c. c \<noteq> CHR '','') s @ CHR '','' # stripDataURIPrefix s)) 1
      = Some (stripDataURIPrefix s)"
    using assms(2) by (rule index_split_first_comma)
  then show ?thesis using strip_decompose[OF assms(1)] by simp
qed

lemma strip_missing:
  assumes "stripDataURIPrefix s = []"
  shows "falsy (index (split_str CHR '','' s) 1)"
proof (cases "CHR '','' \<in> set s")
  case False
  then show ?thesis by (simp add: split_str_no_sep falsy_def)
next
  case True
  let ?a = "takeWhile (\<lambda>c. c \<noteq> CHR '','') s"
  let ?d = "dropWhile (\<lambda>c. c \<noteq> CHR '','') s"
  from True have "?d \<noteq> []" by (auto simp: dropWhile_eq_Nil_conv)
  then have "hd ?d = CHR '',''" using hd_dropWhile[of "\<lambda>c. c \<noteq> CHR '',''" s] by simp
  with \<open>?d \<noteq> []\<close> assms have "?d = [CHR '','']"
    by (cases ?d) (auto simp: stripDataURIPrefix_def)
  then have s: "s = ?a @ CHR '','' # []" by (metis takeWhile_dropWhile_id)
  have "CHR '','' \<notin> set ?a" by (auto dest: set_takeWhileD)
  then have "split_str CHR '','' (?a @ CHR '','' # []) = [?a, []]"
    by (simp add: split_str_append)
  with s have "split_str CHR '','' s = [?a, []]" by simp
  then show ?thesis by (simp add: falsy_def)
qed

section \<open>Building the request\<close>

lemma imagePart_valid:
  "index (split_str CHR '','' (base64 img)) 1 = Some d \<Longrightarrow> d \<noteq> [] \<Longrightarrow>
     imagePart img = Inr (inlinePart img d)"
  by (simp add: imagePart_def inlinePart_def)

lemma imagePart_invalid:
  "falsy (index (split_str CHR '','' (base64 img)) 1) \<Longrightarrow>
     imagePart img = Inl (Error (''Invalid base64 data for image '' @ name (img_file img)))"
  by (auto simp: imagePart_def falsy_def split: option.splits)

lemma mapImages_valid:
  "list_all (\<lambda>(img, d). imagePart img = Inr (inlinePart img d)) ips \<Longrightarrow>
     mapImages (map fst ips) = Inr (map (\<lambda>(img, d). inlinePart img d) ips)"
  by (induction ips) auto

lemma mapImages_first_invalid:
  "list_all (\<lambda>p. \<exists>q. imagePart p = Inr q) pre \<Longrightarrow> imagePart img = Inl e \<Longrightarrow>
     mapImages (pre @ img # post) = Inl e"
  by (induction pre) auto

lemma mapImages_some_invalid:
  "img \<in> set images \<Longrightarrow> imagePart img = Inl e \<Longrightarrow>
     \<exists>bad e'. bad \<in> set images \<and> imagePart bad = Inl e' \<and> mapImages images = Inl e'"
  by (induction images) (auto split: sum.splits)

lemma merge_not_built:
  "mapImages images = Inl e \<Longrightarrow> mergeImagesWithAI t images prompt = ([], Inl (catchClause e))"
  by (simp add: mergeImagesWithAI_def tryBlock_def buildParts_def)

lemma buildParts_built:
  "mapImages images = Inr ps \<Longrightarrow> buildParts images prompt = Inr (instructionPart prompt # ps)"
  by (simp add: buildParts_def instructionPart_def)

lemma merge_calls:
  "mapImages images = Inr ps \<Longrightarrow>
     fst (mergeImagesWithAI t images prompt) = [buildRequest (instructionPart prompt # ps)]"
  by (auto simp: mergeImagesWithAI_def tryBlock_def buildParts_built
           split: sum.splits prod.splits)

section \<open>Scanning the response\<close>

lemma lastOf_snoc: "lastOf (xs @ [x]) = Some x"
  by (simp add: lastOf_def)

lemma lastOf_Nil: "lastOf [] = None"
  by (simp add: lastOf_def)

lemma imageURIs_snoc:
  "imageURIs (ps @ [p]) =
     imageURIs ps @ (case inlineData p of None \<Rightarrow> []
                     | Some b \<Rightarrow> [dataURI (blob_mimeType b) (data b)])"
  by (simp add: imageURIs_def map_filter_def split: option.splits)

lemma texts_snoc:
  "texts (ps @ [p]) =
     texts ps @ (case part_text p of None \<Rightarrow> []
                 | Some t \<Rightarrow> if inlineData p = None \<and> t \<noteq> [] then [t] else [])"
  by (auto simp: texts_def map_filter_def split: option.splits)

lemma scan_fold:
  "foldl scanPart r ps =
     \<lparr>result_image = (case lastOf (imageURIs ps) of None \<Rightarrow> result_image r | Some u \<Rightarrow> Some u),
      result_text = (case lastOf (texts ps) of None \<Rightarrow> result_text r | Some t \<Rightarrow> Some t)\<rparr>"
proof (induction ps rule: rev_induct)
  case Nil
  then show ?case by (simp add: imageURIs_def texts_def map_filter_def lastOf_Nil)
next
  case (snoc p ps)
  show ?case
  proof (cases "inlineData p")
    case (Some b)
    then show ?thesis
      using snoc by (simp add: scanPart_def imageURIs_snoc texts_snoc lastOf_snoc
                          split: option.splits)
  next
    case None
    then show ?thesis
      using snoc
      by (cases "part_text p")
        (auto simp: scanPart_def imageURIs_snoc texts_snoc lastOf_snoc)
  qed
qed

lemma scan_from_null:
  "foldl scanPart \<lparr>result_image = None, result_text = None\<rparr> ps =
     \<lparr>result_image = lastOf (imageURIs ps), result_text = lastOf (texts ps)\<rparr>"
  by (simp add: scan_fold split: option.splits)

lemma dataURI_not_Nil: "dataURI m p \<noteq> []"
  by (simp add: dataURI_def)

lemma imageURIs_Nil_iff: "imageURIs ps = [] \<longleftrightarrow> list_all (\<lambda>p. inlineData p = None) ps"
  by (induction ps) (auto simp: imageURIs_def map_filter_def split: option.splits)

section \<open>The fixtures, evaluated\<close>

lemma fixtures_segments:
  "index (split_str CHR '','' (base64 imageA)) 1 = Some ''QUJD''"
  "index (split_str CHR '','' (base64 imageB)) 1 = Some ''REVG''"
  "index (split_str CHR '','' (base64 brokenImage)) 1 = Some []"
  by (simp_all add: imageA_def imageB_def brokenImage_def encoded_def pngFile_def dataURI_def)

lemma fixtures_strip:
  "stripDataURIPrefix (base64 imageA) = ''QUJD''"
  "stripDataURIPrefix (base64 imageB) = ''REVG''"
  "stripDataURIPrefix (base64 brokenImage) = []"
  by (simp_all add: imageA_def imageB_def brokenImage_def encoded_def pngFile_def dataURI_def
       stripDataURIPrefix_def)

lemma fixtures_imagePart:
  "imagePart imageA = Inr (inlinePart imageA ''QUJD'')"
  "imagePart imageB = Inr (inlinePart imageB ''REVG'')"
  "imagePart brokenImage = Inl (Error ''Invalid base64 data for image broken.png'')"
  using fixtures_segments
  by (simp_all add: imagePart_def inlinePart_def)
     (simp add: brokenImage_def encoded_def pngFile_def)

section \<open>Preconditions of a fusion request\<close>

text \<open>
  C3, as stated, fails: \<open>mergeImagesWithAI\<close> checks neither the number of images nor the
  prompt. With one image, and with two images and a prompt of three spaces, it
  dispatches a request to the service; with one image it returns the stub's result.
\<close>

theorem merge_has_no_precondition_check:
  "mergeImagesWithAI stubTransport [imageA] ''a beach at dusk'' =
     ([buildRequest [instructionPart ''a beach at dusk'', inlinePart imageA ''QUJD'']],
      Inr \<lparr>result_image = Some ''data:image/png;base64,AAAA'',
           result_text = Some ''A fused scene.''\<rparr>)
   \<and> fst (mergeImagesWithAI stubTransport [imageA, imageB] ''   '') =
       [buildRequest [instructionPart ''   '', inlinePart imageA ''QUJD'',
                      inlinePart imageB ''REVG'']]
   \<and> trim ''   '' = []"
  by (simp add: mergeImagesWithAI_def tryBlock_def buildParts_def instructionPart_def
        fixtures_imagePart stubTransport_def stubResponse_def scanResponse_def scanPart_def
        falsy_def dataURI_def trim_def isWhiteSpace_def)

text \<open>
  C3, amended: the check is the caller's. With fewer than two images, or a prompt that is
  empty once trimmed, \<open>handleSubmit\<close> sets the validation message and returns without
  calling \<open>mergeImagesWithAI\<close>: the service receives no request and the rest of the state
  is unchanged.
\<close>

theorem handleSubmit_validates:
  "length (uploadedImages s) < 2 \<or> trim (backgroundPrompt s) = [] \<Longrightarrow>
     handleSubmit t s =
       ([], s\<lparr>error :=
                Some ''Please upload at least 2 images and provide a background description.''\<rparr>)"
  by (simp add: handleSubmit_def)

theorem handleSubmit_validates_witness:
  "handleSubmit stubTransport
     (initialState\<lparr>uploadedImages := [imageA], backgroundPrompt := ''a beach at dusk''\<rparr>) =
     ([], initialState\<lparr>uploadedImages := [imageA], backgroundPrompt := ''a beach at dusk'',
            error :=
              Some ''Please upload at least 2 images and provide a background description.''\<rparr>)"
  using handleSubmit_validates
    [of "initialState\<lparr>uploadedImages := [imageA], backgroundPrompt := ''a beach at dusk''\<rparr>"
        stubTransport]
  by simp

section \<open>Parsing the response\<close>

lemma merge_result:
  assumes "mapImages images = Inr ps"
    and "t (buildRequest (instructionPart prompt # ps)) = Inr response"
  shows "mergeImagesWithAI t images prompt =
     ([buildRequest (instructionPart prompt # ps)],
      case scanResponse response of
        Inl e \<Rightarrow> Inl (catchClause e)
      | Inr result \<Rightarrow>
          if falsy (result_image result)
          then Inl (Error (''Failed to generate image: The AI did not return an image. ''
                           @ ''Please try adjusting your prompt or using different images.''))
          else Inr result)"
  using assms
  by (simp add: mergeImagesWithAI_def tryBlock_def buildParts_built catchClause_def
           split: sum.splits)

lemma scanResponse_first:
  "candidates response = Some (\<lparr>content = Some \<lparr>content_parts = Some c\<rparr>\<rparr> # cs) \<Longrightarrow>
     scanResponse response =
       Inr \<lparr>result_image = lastOf (imageURIs c), result_text = lastOf (texts c)\<rparr>"
  by (simp add: scanResponse_def scan_from_null)

lemma lastOf_Some: "xs \<noteq> [] \<Longrightarrow> lastOf xs = Some (last xs)"
  by (cases xs rule: rev_cases) (simp_all add: lastOf_def)

lemma lastOf_mem: "lastOf xs = Some x \<Longrightarrow> x \<in> set xs"
  by (cases xs rule: rev_cases) (simp_all add: lastOf_def)

lemma imageURIs_Cons:
  "imageURIs (p # ps) =
     (case inlineData p of None \<Rightarrow> []
      | Some b \<Rightarrow> [dataURI (blob_mimeType b) (data b)]) @ imageURIs ps"
  by (simp add: imageURIs_def map_filter_def split: option.splits)

lemma imageURIs_mem: "u \<in> set (imageURIs ps) \<Longrightarrow> \<exists>m d. u = dataURI m d"
proof (induction ps)
  case Nil
  then show ?case by (simp add: imageURIs_def map_filter_def)
next
  case (Cons p ps)
  show ?case
  proof (cases "inlineData p")
    case None
    with Cons show ?thesis by (simp add: imageURIs_Cons)
  next
    case (Some b)
    with Cons.prems have "u = dataURI (blob_mimeType b) (data b) \<or> u \<in> set (imageURIs ps)"
      by (simp add: imageURIs_Cons)
    then show ?thesis using Cons.IH by blast
  qed
qed

lemma last_imageURIs_not_Nil: "imageURIs ps \<noteq> [] \<Longrightarrow> last (imageURIs ps) \<noteq> []"
proof -
  assume "imageURIs ps \<noteq> []"
  then have "last (imageURIs ps) \<in> set (imageURIs ps)" by (rule last_in_set)
  then obtain m d where "last (imageURIs ps) = dataURI m d"
    using imageURIs_mem by blast
  then show ?thesis by (simp add: dataURI_not_Nil)
qed

lemma scanResponse_noInline:
  "noInlineData response \<Longrightarrow>
     \<exists>r. scanResponse response = Inr r \<and> result_image r = None"
  by (auto simp: noInlineData_def scanResponse_def scan_from_null lastOf_Nil
        imageURIs_Nil_iff[symmetric] split: option.splits list.splits)

lemma scanResponse_image:
  "scanResponse response = Inr r \<Longrightarrow> result_image r = Some u \<Longrightarrow> \<exists>m d. u = dataURI m d"
  by (auto simp: scanResponse_def scan_from_null split: option.splits list.splits
        dest!: lastOf_mem imageURIs_mem)

text \<open>
  C4: the scan of the first candidate's parts, in order, is "last wins" for both fields:
  the result's image is the data URI of the last part with inline data, its text the text
  of the last text part (a part without inline data whose text is not empty). When the
  service answers and some part carries inline data, that result is what
  \<open>mergeImagesWithAI\<close> returns. For the stub response with one image part
  (\<open>image/png\<close>, \<open>AAAA\<close>) and one text part it returns
  \<open>data:image/png;base64,AAAA\<close> and \<open>A fused scene.\<close>
\<close>

theorem response_scan_last_wins:
  "foldl scanPart \<lparr>result_image = None, result_text = None\<rparr> parts =
     \<lparr>result_image = lastOf (imageURIs parts), result_text = lastOf (texts parts)\<rparr>
   \<and> (mapImages images = Inr ps \<longrightarrow>
        t (buildRequest (instructionPart prompt # ps)) = Inr response \<longrightarrow>
        candidates response = Some (\<lparr>content = Some \<lparr>content_parts = Some c\<rparr>\<rparr> # cs) \<longrightarrow>
        imageURIs c \<noteq> [] \<longrightarrow>
        snd (mergeImagesWithAI t images prompt) =
          Inr \<lparr>result_image = Some (last (imageURIs c)), result_text = lastOf (texts c)\<rparr>)
   \<and> snd (mergeImagesWithAI stubTransport [imageA, imageB] ''a beach at dusk'') =
       Inr \<lparr>result_image = Some ''data:image/png;base64,AAAA'',
            result_text = Some ''A fused scene.''\<rparr>"
proof (intro conjI impI)
  show "foldl scanPart \<lparr>result_image = None, result_text = None\<rparr> parts =
     \<lparr>result_image = lastOf (imageURIs parts), result_text = lastOf (texts parts)\<rparr>"
    by (rule scan_from_null)
next
  assume built: "mapImages images = Inr ps"
    and sent: "t (buildRequest (instructionPart prompt # ps)) = Inr response"
    and cand: "candidates response = Some (\<lparr>content = Some \<lparr>content_parts = Some c\<rparr>\<rparr> # cs)"
    and img: "imageURIs c \<noteq> []"
  have "scanResponse response =
      Inr \<lparr>result_image = Some (last (imageURIs c)), result_text = lastOf (texts c)\<rparr>"
    using scanResponse_first[OF cand] lastOf_Some[OF img] by simp
  then show "snd (mergeImagesWithAI t images prompt) =
      Inr \<lparr>result_image = Some (last (imageURIs c)), result_text = lastOf (texts c)\<rparr>"
    using merge_result[of images ps t prompt response, OF built sent]
      last_imageURIs_not_Nil[OF img]
    by (simp add: falsy_def)
next
  show "snd (mergeImagesWithAI stubTransport [imageA, imageB] ''a beach at dusk'') =
       Inr \<lparr>result_image = Some ''data:image/png;base64,AAAA'',
            result_text = Some ''A fused scene.''\<rparr>"
    by (simp add: mergeImagesWithAI_def tryBlock_def buildParts_def fixtures_imagePart
          stubTransport_def stubResponse_def scanResponse_def scanPart_def falsy_def dataURI_def)
qed

theorem response_scan_last_wins_witness:
  "snd (mergeImagesWithAI lastWinsTransport [imageA, imageB] ''a beach at dusk'') =
     Inr \<lparr>result_image = Some ''data:image/webp;base64,BBBB'', result_text = Some ''second''\<rparr>"
proof -
  have built: "mapImages [imageA, imageB] = Inr [inlinePart imageA ''QUJD'', inlinePart imageB ''REVG'']"
    by (simp add: fixtures_imagePart)
  have sent: "lastWinsTransport (buildRequest (instructionPart ''a beach at dusk''
                # [inlinePart imageA ''QUJD'', inlinePart imageB ''REVG''])) = Inr lastWinsResponse"
    by (simp add: lastWinsTransport_def)
  have cand: "candidates lastWinsResponse =
      Some (\<lparr>content = Some \<lparr>content_parts = Some
              [\<lparr>inlineData = None, part_text = Some ''first''\<rparr>,
               \<lparr>inlineData = Some \<lparr>blob_mimeType = ''image/png'', data = ''AAAA''\<rparr>,
                part_text = None\<rparr>,
               \<lparr>inlineData = Some \<lparr>blob_mimeType = ''image/webp'', data = ''BBBB''\<rparr>,
                part_text = None\<rparr>,
               \<lparr>inlineData = None, part_text = Some ''second''\<rparr>]\<rparr>\<rparr> # [])"
    by (simp add: lastWinsResponse_def)
  show ?thesis
    using response_scan_last_wins[of _ "[imageA, imageB]" _ lastWinsTransport
        "''a beach at dusk''" lastWinsResponse _ "[]"] built sent cand
    by (simp add: imageURIs_def texts_def map_filter_def lastOf_def dataURI_def)
qed

section \<open>A response without an image; edge cases of the scan\<close>

lemma merge_returns:
  assumes "snd (mergeImagesWithAI t images prompt) = Inr result"
  obtains ps response where "mapImages images = Inr ps"
    and "t (buildRequest (instructionPart prompt # ps)) = Inr response"
    and "scanResponse response = Inr result"
    and "\<not> falsy (result_image result)"
  using assms
  by (auto simp: mergeImagesWithAI_def tryBlock_def buildParts_def instructionPart_def
        split: sum.splits if_splits)

text \<open>
  Where the parts can be read: when the service answers with no candidate, or with a
  first candidate whose parts carry no inline image data, \<open>mergeImagesWithAI\<close> fails after
  the call with the "did not return an image" error. And whatever the response,
  a result that is returned has a data URI for its image, never \<open>null\<close>.
\<close>

lemma no_image_is_a_failure:
  assumes built: "mapImages images = Inr ps"
    and sent: "t (buildRequest (instructionPart prompt # ps)) = Inr response"
    and none: "noInlineData response"
  shows "mergeImagesWithAI t images prompt =
        ([buildRequest (instructionPart prompt # ps)],
         Inl (Error (''Failed to generate image: The AI did not return an image. ''
                     @ ''Please try adjusting your prompt or using different images.'')))"
proof -
  obtain r where "scanResponse response = Inr r" "result_image r = None"
    using scanResponse_noInline[OF none] by blast
  then show ?thesis
    using merge_result[of images ps t prompt response, OF built sent]
    by (simp add: falsy_def)
qed

lemma returned_image_is_data_uri:
  assumes "snd (mergeImagesWithAI t images prompt) = Inr result"
  shows "\<exists>mime payload. result_image result = Some (dataURI mime payload)"
proof -
  from assms obtain response where r: "scanResponse response = Inr result"
    and t: "\<not> falsy (result_image result)"
    by (rule merge_returns)
  from t obtain u where "result_image result = Some u"
    by (auto simp: falsy_def split: option.splits)
  then show ?thesis
    using scanResponse_image[OF r, of u] by auto
qed

lemma textOnly_fails:
  "mergeImagesWithAI textOnlyTransport [imageA, imageB] ''a beach at dusk'' =
     ([buildRequest [instructionPart ''a beach at dusk'', inlinePart imageA ''QUJD'',
                     inlinePart imageB ''REVG'']],
      Inl (Error (''Failed to generate image: The AI did not return an image. ''
                  @ ''Please try adjusting your prompt or using different images.'')))"
proof -
  have built: "mapImages [imageA, imageB] = Inr [inlinePart imageA ''QUJD'', inlinePart imageB ''REVG'']"
    by (simp add: fixtures_imagePart)
  have sent: "textOnlyTransport (buildRequest (instructionPart ''a beach at dusk''
                # [inlinePart imageA ''QUJD'', inlinePart imageB ''REVG''])) = Inr textOnlyResponse"
    by (simp add: textOnlyTransport_def)
  have none: "noInlineData textOnlyResponse"
    by (simp add: noInlineData_def textOnlyResponse_def)
  show ?thesis
    using no_image_is_a_failure[of "[imageA, imageB]" _ textOnlyTransport
        "''a beach at dusk''" textOnlyResponse, OF built sent none] by simp
qed

text \<open>
  C5 on the code, for a service that answers with one candidate without content (a
  blocked request), which is a response without inline image data. The guard of the
  scan covers \<open>candidates\<close> only: \<open>candidates[0].content.parts\<close> is read of an undefined
  \<open>content\<close>, the \<open>TypeError\<close> lands in the \<open>catch\<close> clause, and the call fails with the
  engine's message behind the prefix, not with the "did not return an image" error.
  The request was dispatched. A content without \<open>parts\<close> ends the scan the same way.
\<close>

theorem blocked_candidate_is_a_type_error:
  "mergeImagesWithAI blockedTransport [imageA, imageB] ''a beach at dusk'' =
     ([\<lparr>model = ''gemini-2.5-flash-image-preview'',
        contents =
          [\<lparr>inlineData = None, part_text = Some (fullPrompt ''a beach at dusk'')\<rparr>,
           \<lparr>inlineData = Some \<lparr>blob_mimeType = ''image/png'', data = ''QUJD''\<rparr>,
            part_text = None\<rparr>,
           \<lparr>inlineData = Some \<lparr>blob_mimeType = ''image/png'', data = ''REVG''\<rparr>,
            part_text = None\<rparr>],
        responseModalities = [IMAGE, TEXT]\<rparr>],
      Inl (Error (''Failed to generate image: Cannot read properties of undefined (reading ''
                  @ [CHR 0x27] @ ''parts'' @ [CHR 0x27] @ '')'')))
   \<and> snd (mergeImagesWithAI blockedTransport [imageA, imageB] ''a beach at dusk'') \<noteq>
       Inl (Error (''Failed to generate image: The AI did not return an image. ''
                   @ ''Please try adjusting your prompt or using different images.''))
   \<and> candidates blockedResponse = Some [\<lparr>content = None\<rparr>]
   \<and> scanResponse \<lparr>candidates = Some [\<lparr>content = Some \<lparr>content_parts = None\<rparr>\<rparr>]\<rparr> =
       Inl (Error ''response.candidates[0].content.parts is not iterable'')"
  by (simp add: mergeImagesWithAI_def tryBlock_def buildParts_def buildRequest_def
        fixtures_imagePart inlinePart_def blockedTransport_def blockedResponse_def
        scanResponse_def catchClause_def readPartsOfUndefined_def partsNotIterable_def)
     (simp add: imageA_def imageB_def encoded_def pngFile_def)

text \<open>
  C10: a part with both inline data and a text sets the image only and leaves the text
  as it was; a part whose text is the empty string changes nothing. A response made of
  these two parts yields the image and a \<open>null\<close> text.
\<close>

theorem scan_edge_cases:
  "scanPart r \<lparr>inlineData = Some b, part_text = Some t\<rparr> =
     r\<lparr>result_image := Some (dataURI (blob_mimeType b) (data b))\<rparr>
   \<and> result_text (scanPart r \<lparr>inlineData = Some b, part_text = Some t\<rparr>) = result_text r
   \<and> scanPart r \<lparr>inlineData = None, part_text = Some []\<rparr> = r
   \<and> scanResponse
        \<lparr>candidates =
           Some [\<lparr>content = Some \<lparr>content_parts = Some
                  [\<lparr>inlineData = Some b, part_text = Some t\<rparr>,
                   \<lparr>inlineData = None, part_text = Some []\<rparr>]\<rparr>\<rparr>]\<rparr> =
       Inr \<lparr>result_image = Some (dataURI (blob_mimeType b) (data b)), result_text = None\<rparr>"
  by (simp add: scanPart_def scanResponse_def)

section \<open>The request and its encoding failures\<close>

lemma imagePart_stripped:
  assumes "stripDataURIPrefix (base64 img) \<noteq> []"
    and "CHR '','' \<notin> set (stripDataURIPrefix (base64 img))"
  shows "imagePart img = Inr (inlinePart img (stripDataURIPrefix (base64 img)))"
  using strip_segment[OF assms] assms(1) by (rule imagePart_valid)

lemma mapImages_stripped:
  "\<forall>img\<in>set images. stripDataURIPrefix (base64 img) \<noteq> []
       \<and> CHR '','' \<notin> set (stripDataURIPrefix (base64 img)) \<Longrightarrow>
     mapImages images = Inr (map (\<lambda>img. inlinePart img (stripDataURIPrefix (base64 img))) images)"
  by (induction images) (simp_all add: imagePart_stripped)

text \<open>
  C6, as stated, fails: the instruction embeds the prompt as it was passed, not trimmed.
  For the prompt \<open>" beach "\<close> the request's text part is the instruction around
  \<open>" beach "\<close>, which is not the instruction around \<open>"beach"\<close>.
\<close>

theorem prompt_is_not_trimmed:
  "fst (mergeImagesWithAI stubTransport [imageA, imageB] '' beach '') =
     [buildRequest [instructionPart '' beach '', inlinePart imageA ''QUJD'',
                    inlinePart imageB ''REVG'']]
   \<and> trim '' beach '' = ''beach''
   \<and> instructionPart '' beach '' \<noteq> instructionPart (trim '' beach '')"
  by (simp add: mergeImagesWithAI_def tryBlock_def buildParts_def fixtures_imagePart
        stubTransport_def stubResponse_def scanResponse_def scanPart_def falsy_def dataURI_def
        instructionPart_def fullPrompt_def trim_def isWhiteSpace_def)

text \<open>
  C6, amended: when every image's payload has, after its first comma, a segment that is
  not empty and has no further comma, the request is one ordered list of parts: first the
  single text instruction embedding the background prompt exactly as given, then one
  inline part per image, in the order of the collection, carrying the payload with its
  data-URI prefix stripped and the image's MIME type. That request is the one dispatched.
\<close>

theorem request_construction:
  "\<forall>img\<in>set images. stripDataURIPrefix (base64 img) \<noteq> []
       \<and> CHR '','' \<notin> set (stripDataURIPrefix (base64 img)) \<Longrightarrow>
     buildParts images prompt =
       Inr (\<lparr>inlineData = None, part_text = Some (fullPrompt prompt)\<rparr>
            # map (\<lambda>img. \<lparr>inlineData = Some \<lparr>blob_mimeType = mimeType img,
                                                data = stripDataURIPrefix (base64 img)\<rparr>,
                            part_text = None\<rparr>) images)
     \<and> fst (mergeImagesWithAI t images prompt) =
         [buildRequest
            (instructionPart prompt
             # map (\<lambda>img. inlinePart img (stripDataURIPrefix (base64 img))) images)]"
proof -
  assume valid: "\<forall>img\<in>set images. stripDataURIPrefix (base64 img) \<noteq> []
       \<and> CHR '','' \<notin> set (stripDataURIPrefix (base64 img))"
  have m: "mapImages images =
      Inr (map (\<lambda>img. inlinePart img (stripDataURIPrefix (base64 img))) images)"
    using valid by (rule mapImages_stripped)
  have "buildParts images prompt =
       Inr (\<lparr>inlineData = None, part_text = Some (fullPrompt prompt)\<rparr>
            # map (\<lambda>img. \<lparr>inlineData = Some \<lparr>blob_mimeType = mimeType img,
                                                data = stripDataURIPrefix (base64 img)\<rparr>,
                            part_text = None\<rparr>) images)"
    using m by (simp add: buildParts_def inlinePart_def)
  moreover have "fst (mergeImagesWithAI t images prompt) =
         [buildRequest
            (instructionPart prompt
             # map (\<lambda>img. inlinePart img (stripDataURIPrefix (base64 img))) images)]"
    using m by (rule merge_calls)
  ultimately show ?thesis by simp
qed

theorem request_construction_witness:
  "fst (mergeImagesWithAI stubTransport [imageA, imageB] '' beach '') =
     [buildRequest [instructionPart '' beach '', inlinePart imageA ''QUJD'',
                    inlinePart imageB ''REVG'']]
   \<and> buildParts [imageA, imageB] '' beach '' =
       Inr [\<lparr>inlineData = None, part_text = Some (fullPrompt '' beach '')\<rparr>,
            \<lparr>inlineData = Some \<lparr>blob_mimeType = ''image/png'', data = ''QUJD''\<rparr>,
             part_text = None\<rparr>,
            \<lparr>inlineData = Some \<lparr>blob_mimeType = ''image/png'', data = ''REVG''\<rparr>,
             part_text = None\<rparr>]"
  using request_construction[of "[imageA, imageB]" "'' beach ''" stubTransport]
  by (simp add: fixtures_strip)
     (simp add: imageA_def imageB_def encoded_def pngFile_def)

text \<open>
  C7: when some image has nothing after the first comma of its payload (or no comma),
  \<open>mergeImagesWithAI\<close> dispatches no request and fails with the error naming the file of
  an image whose segment is missing; when the images before it all have their segment,
  the file named is that image's.
\<close>

theorem missing_segment_fails_before_dispatch:
  "(img \<in> set images \<longrightarrow> stripDataURIPrefix (base64 img) = [] \<longrightarrow>
      fst (mergeImagesWithAI t images prompt) = []
      \<and> (\<exists>bad. bad \<in> set images
             \<and> falsy (index (split_str CHR '','' (base64 bad)) 1)
             \<and> snd (mergeImagesWithAI t images prompt) =
                 Inl (Error (''Failed to generate image: Invalid base64 data for image ''
                             @ name (img_file bad)))))
   \<and> (stripDataURIPrefix (base64 img) = [] \<longrightarrow>
        list_all (\<lambda>p. \<not> falsy (index (split_str CHR '','' (base64 p)) 1)) pre \<longrightarrow>
        mergeImagesWithAI t (pre @ img # post) prompt =
          ([], Inl (Error (''Failed to generate image: Invalid base64 data for image ''
                           @ name (img_file img)))))"
proof (intro conjI impI)
  assume mem: "img \<in> set images" and missing: "stripDataURIPrefix (base64 img) = []"
  have "imagePart img = Inl (Error (''Invalid base64 data for image '' @ name (img_file img)))"
    using missing by (intro imagePart_invalid strip_missing)
  with mem obtain bad e where bad: "bad \<in> set images" "imagePart bad = Inl e"
    "mapImages images = Inl e"
    using mapImages_some_invalid by blast
  from bad(2) have f: "falsy (index (split_str CHR '','' (base64 bad)) 1)"
    by (auto simp: imagePart_def falsy_def split: option.splits if_splits)
  then have e: "e = Error (''Invalid base64 data for image '' @ name (img_file bad))"
    using bad(2) imagePart_invalid[of bad] by simp
  have m: "mergeImagesWithAI t images prompt = ([], Inl (catchClause e))"
    using bad(3) by (rule merge_not_built)
  show "fst (mergeImagesWithAI t images prompt) = []" using m by simp
  show "\<exists>bad. bad \<in> set images
             \<and> falsy (index (split_str CHR '','' (base64 bad)) 1)
             \<and> snd (mergeImagesWithAI t images prompt) =
                 Inl (Error (''Failed to generate image: Invalid base64 data for image ''
                             @ name (img_file bad)))"
    using bad(1) f m e by (auto simp: catchClause_def)
next
  assume missing: "stripDataURIPrefix (base64 img) = []"
    and pre: "list_all (\<lambda>p. \<not> falsy (index (split_str CHR '','' (base64 p)) 1)) pre"
  have bad: "imagePart img = Inl (Error (''Invalid base64 data for image '' @ name (img_file img)))"
    using missing by (intro imagePart_invalid strip_missing)
  have "list_all (\<lambda>p. \<exists>q. imagePart p = Inr q) pre"
    using pre by (induction pre) (auto simp: imagePart_def falsy_def split: option.splits)
  then have "mapImages (pre @ img # post) =
      Inl (Error (''Invalid base64 data for image '' @ name (img_file img)))"
    using bad by (rule mapImages_first_invalid)
  then show "mergeImagesWithAI t (pre @ img # post) prompt =
          ([], Inl (Error (''Failed to generate image: Invalid base64 data for image ''
                           @ name (img_file img))))"
    using merge_not_built[of "pre @ img # post" _ t prompt] by (simp add: catchClause_def)
qed

theorem missing_segment_fails_before_dispatch_witness:
  "mergeImagesWithAI stubTransport [imageA, brokenImage, imageB] ''a beach at dusk'' =
     ([], Inl (Error ''Failed to generate image: Invalid base64 data for image broken.png''))"
proof -
  have pre: "list_all (\<lambda>p. \<not> falsy (index (split_str CHR '','' (base64 p)) 1)) [imageA]"
    using fixtures_segments(1) by (simp add: falsy_def)
  have n: "name (img_file brokenImage) = ''broken.png''"
    by (simp add: brokenImage_def encoded_def pngFile_def)
  show ?thesis
    using missing_segment_fails_before_dispatch[of brokenImage _ stubTransport
        "''a beach at dusk''" "[imageA]" "[imageB]"] fixtures_strip(3) pre n
    by simp
qed

section \<open>Round trip of the data URI\<close>

lemma strip_dataURI:
  assumes "CHR '','' \<notin> set mime"
  shows "stripDataURIPrefix (dataURI mime payload) = payload"
proof -
  let ?a = "''data:'' @ mime @ '';base64''"
  have a: "\<forall>c\<in>set ?a. c \<noteq> CHR '',''" using assms by auto
  have "dataURI mime payload = ?a @ CHR '','' # payload"
    by (simp add: dataURI_def)
  moreover have "dropWhile (\<lambda>c. c \<noteq> CHR '','') (?a @ CHR '','' # payload) = CHR '','' # payload"
    using a by (subst dropWhile_append2) auto
  ultimately show ?thesis by (simp add: stripDataURIPrefix_def)
qed

lemma mapImages_payloads:
  "list_all (\<lambda>(img, payload). base64 img = dataURI (mimeType img) payload
        \<and> CHR '','' \<notin> set (mimeType img) \<and> CHR '','' \<notin> set payload \<and> payload \<noteq> []) ips \<Longrightarrow>
     mapImages (map fst ips) = Inr (map (\<lambda>(img, payload). inlinePart img payload) ips)"
proof (induction ips)
  case Nil
  then show ?case by simp
next
  case (Cons ip ips)
  obtain img payload where ip: "ip = (img, payload)" by (cases ip)
  from Cons.prems ip have b: "base64 img = dataURI (mimeType img) payload"
    and m: "CHR '','' \<notin> set (mimeType img)" and p: "CHR '','' \<notin> set payload"
    and n: "payload \<noteq> []" by simp_all
  have "index (split_str CHR '','' (base64 img)) 1 = Some payload"
    using dataURI_segment[OF m p] b by simp
  then have "imagePart img = Inr (inlinePart img payload)"
    using n by (rule imagePart_valid)
  then show ?case using Cons ip by simp
qed

text \<open>
  C8, as stated, fails for the empty byte sequence: its data URI
  \<open>data:image/png;base64,\<close> has the claimed form and a payload without a comma, the
  segment extracted is the empty payload, and the code refuses it: the call fails before
  dispatch and nothing is supplied to the service.
\<close>

theorem empty_payload_is_not_dispatched:
  "base64 brokenImage = dataURI ''image/png'' []
   \<and> index (split_str CHR '','' (base64 brokenImage)) 1 = Some []
   \<and> mergeImagesWithAI stubTransport [brokenImage, imageB] ''a beach at dusk'' =
       ([], Inl (Error ''Failed to generate image: Invalid base64 data for image broken.png''))"
  using fixtures_segments(3)
  by (simp add: mergeImagesWithAI_def tryBlock_def buildParts_def fixtures_imagePart
        catchClause_def)
     (simp add: brokenImage_def encoded_def pngFile_def)

text \<open>
  C8, amended: for a MIME type and a base64 payload without commas, the segment the code
  extracts from \<open>data:<mimeType>;base64,<payload>\<close> (index 1 of the split at commas) is
  the payload, and so is what follows the first comma. When every image of the collection
  holds such a data URI with a payload that is not empty, exactly one request is
  dispatched, and its inline parts carry exactly these payloads, in order, after the
  instruction.
\<close>

theorem data_uri_round_trip:
  "(CHR '','' \<notin> set mime \<longrightarrow> CHR '','' \<notin> set payload \<longrightarrow>
      index (split_str CHR '','' (dataURI mime payload)) 1 = Some payload
      \<and> stripDataURIPrefix (dataURI mime payload) = payload)
   \<and> (list_all (\<lambda>(img, payload). base64 img = dataURI (mimeType img) payload
          \<and> CHR '','' \<notin> set (mimeType img) \<and> CHR '','' \<notin> set payload \<and> payload \<noteq> []) ips \<longrightarrow>
        fst (mergeImagesWithAI t (map fst ips) prompt) =
          [\<lparr>model = ''gemini-2.5-flash-image-preview'',
            contents =
              \<lparr>inlineData = None, part_text = Some (fullPrompt prompt)\<rparr>
              # map (\<lambda>(img, payload).
                       \<lparr>inlineData = Some \<lparr>blob_mimeType = mimeType img, data = payload\<rparr>,
                        part_text = None\<rparr>) ips,
            responseModalities = [IMAGE, TEXT]\<rparr>])"
proof (intro conjI impI)
  assume "CHR '','' \<notin> set mime" and "CHR '','' \<notin> set payload"
  then show "index (split_str CHR '','' (dataURI mime payload)) 1 = Some payload"
    by (rule dataURI_segment)
next
  assume "CHR '','' \<notin> set mime"
  then show "stripDataURIPrefix (dataURI mime payload) = payload"
    by (rule strip_dataURI)
next
  assume "list_all (\<lambda>(img, payload). base64 img = dataURI (mimeType img) payload
          \<and> CHR '','' \<notin> set (mimeType img) \<and> CHR '','' \<notin> set payload \<and> payload \<noteq> []) ips"
  then have "mapImages (map fst ips) = Inr (map (\<lambda>(img, payload). inlinePart img payload) ips)"
    by (rule mapImages_payloads)
  then have "fst (mergeImagesWithAI t (map fst ips) prompt) =
      [buildRequest (instructionPart prompt
                     # map (\<lambda>(img, payload). inlinePart img payload) ips)]"
    by (rule merge_calls)
  then show "fst (mergeImagesWithAI t (map fst ips) prompt) =
          [\<lparr>model = ''gemini-2.5-flash-image-preview'',
            contents =
              \<lparr>inlineData = None, part_text = Some (fullPrompt prompt)\<rparr>
              # map (\<lambda>(img, payload).
                       \<lparr>inlineData = Some \<lparr>blob_mimeType = mimeType img, data = payload\<rparr>,
                        part_text = None\<rparr>) ips,
            responseModalities = [IMAGE, TEXT]\<rparr>]"
    by (simp add: buildRequest_def instructionPart_def inlinePart_def)
qed

theorem data_uri_round_trip_witness:
  "index (split_str CHR '','' (dataURI ''image/png'' ''QUJD'')) 1 = Some ''QUJD''
   \<and> stripDataURIPrefix (dataURI ''image/png'' ''QUJD'') = ''QUJD''
   \<and> fst (mergeImagesWithAI stubTransport [imageA, imageB] ''a beach at dusk'') =
       [\<lparr>model = ''gemini-2.5-flash-image-preview'',
         contents =
           [\<lparr>inlineData = None, part_text = Some (fullPrompt ''a beach at dusk'')\<rparr>,
            \<lparr>inlineData = Some \<lparr>blob_mimeType = ''image/png'', data = ''QUJD''\<rparr>,
             part_text = None\<rparr>,
            \<lparr>inlineData = Some \<lparr>blob_mimeType = ''image/png'', data = ''REVG''\<rparr>,
             part_text = None\<rparr>],
         responseModalities = [IMAGE, TEXT]\<rparr>]"
proof -
  have ips: "list_all (\<lambda>(img, payload). base64 img = dataURI (mimeType img) payload
          \<and> CHR '','' \<notin> set (mimeType img) \<and> CHR '','' \<notin> set payload \<and> payload \<noteq> [])
        [(imageA, ''QUJD''), (imageB, ''REVG'')]"
    by (simp add: imageA_def imageB_def encoded_def pngFile_def)
  have m: "mimeType imageA = ''image/png''" "mimeType imageB = ''image/png''"
    by (simp_all add: imageA_def imageB_def encoded_def pngFile_def)
  show ?thesis
    using data_uri_round_trip[of "''image/png''" "''QUJD''"
        "[(imageA, ''QUJD''), (imageB, ''REVG'')]" stubTransport "''a beach at dusk''"] ips m
    by simp
qed

section \<open>Image Intake: allowed types, rejected files and the cap\<close>

lemma forEach_started:
  "list_all (\<lambda>f. ftype f \<in> set allowedTypes) (snd acc) \<Longrightarrow>
     list_all (\<lambda>f. ftype f \<in> set allowedTypes) (snd (foldl (forEachFile up ni) acc fs))"
proof (induction fs arbitrary: acc)
  case Nil
  then show ?case by simp
next
  case (Cons f fs)
  have "list_all (\<lambda>f. ftype f \<in> set allowedTypes) (snd (forEachFile up ni acc f))"
    using Cons.prems by (cases acc) (simp add: forEachFile_def)
  then show ?case using Cons.IH by simp
qed

lemma handleFileChange_inv: "typesAllowed s \<Longrightarrow> typesAllowed (handleFileChange files s)"
proof (cases files)
  case None
  then show "typesAllowed s \<Longrightarrow> ?thesis" by (simp add: handleFileChange_def)
next
  case (Some fs)
  assume inv: "typesAllowed s"
  obtain err started where r: "foldl (forEachFile (uploadedImages s) []) (error s, []) fs = (err, started)"
    by (cases "foldl (forEachFile (uploadedImages s) []) (error s, []) fs")
  have "list_all (\<lambda>f. ftype f \<in> set allowedTypes) started"
    using forEach_started[of "(error s, [])" "uploadedImages s" "[]" fs] r by simp
  then show ?thesis using inv Some r by (simp add: handleFileChange_def typesAllowed_def)
qed

lemma list_all_update:
  "list_all P xs \<Longrightarrow> P x \<Longrightarrow> list_all P (xs[i := x])"
  by (induction xs arbitrary: i) (auto split: nat.splits)

lemma list_all_remove_nth:
  "list_all P xs \<Longrightarrow> list_all P (take i xs @ drop (Suc i) xs)"
  by (auto simp: list_all_iff dest: in_set_takeD in_set_dropD)

lemma onload_inv: "typesAllowed s \<Longrightarrow> typesAllowed (onload bi fi res now s)"
proof (cases "bi < length (batches s) \<and> fi < length (readers (batches s ! bi))")
  case False
  then show "typesAllowed s \<Longrightarrow> ?thesis" by (auto simp: onload_def)
next
  case True
  assume inv: "typesAllowed s"
  let ?P = "\<lambda>b. list_all (\<lambda>img. mimeType img \<in> set allowedTypes) (newImages b)
                      \<and> list_all (\<lambda>f. ftype f \<in> set allowedTypes) (readers b)"
  let ?b = "batches s ! bi"
  let ?f = "readers ?b ! fi"
  let ?rest = "take fi (readers ?b) @ drop (Suc fi) (readers ?b)"
  from inv have up: "list_all (\<lambda>img. mimeType img \<in> set allowedTypes) (uploadedImages s)"
    and bs: "list_all ?P (batches s)" by (simp_all add: typesAllowed_def)
  from bs True have b: "?P ?b" by (simp add: list_all_length)
  then have f: "ftype ?f \<in> set allowedTypes" using True by (simp add: list_all_length)
  from b have "list_all (\<lambda>f. ftype f \<in> set allowedTypes) (readers ?b)" by simp
  then have rest: "list_all (\<lambda>f. ftype f \<in> set allowedTypes) ?rest"
    by (rule list_all_remove_nth)
  show ?thesis
  proof (cases res)
    case None
    have "?P (?b\<lparr>readers := ?rest\<rparr>)" using b rest by simp
    then have "list_all ?P ((batches s)[bi := ?b\<lparr>readers := ?rest\<rparr>])"
      using bs by (intro list_all_update)
    then show ?thesis using True None up by (simp add: onload_def typesAllowed_def Let_def)
  next
    case (Some str)
    let ?pushed = "newImages ?b @ [\<lparr>img_id = name ?f @ ''-'' @ decimal now, img_file = ?f,
                           base64 = str, mimeType = ftype ?f\<rparr>]"
    have p: "list_all (\<lambda>img. mimeType img \<in> set allowedTypes) ?pushed" using b f by simp
    then have "?P (?b\<lparr>newImages := ?pushed, readers := ?rest\<rparr>)" using rest by simp
    then have "list_all ?P ((batches s)[bi := ?b\<lparr>newImages := ?pushed, readers := ?rest\<rparr>])"
      using bs by (intro list_all_update)
    then show ?thesis using True Some up p
      by (simp add: onload_def typesAllowed_def Let_def)
  qed
qed

lemma handleRemoveImage_inv: "typesAllowed s \<Longrightarrow> typesAllowed (handleRemoveImage i s)"
  by (auto simp: handleRemoveImage_def typesAllowed_def list_all_iff)

lemma step_inv: "typesAllowed s \<Longrightarrow> typesAllowed (step s ev)"
  by (cases ev) (simp_all add: handleFileChange_inv onload_inv handleRemoveImage_inv)

lemma run_inv: "typesAllowed s \<Longrightarrow> typesAllowed (run evs s)"
  unfolding run_def by (induction evs arbitrary: s) (simp_all add: step_inv)

lemma initial_inv: "typesAllowed initialState"
  by (simp add: typesAllowed_def initialState_def)

text \<open>
  C9: after any sequence of file selections, reader completions and removals, every
  record of the collection has a MIME type of the allow-list, and so has every file
  given to a reader: the type is checked in the loop, before the reader starts. Removal
  only filters the collection.
\<close>

theorem collection_types_allowed:
  "(\<forall>img\<in>set (uploadedImages (run evs initialState)). mimeType img \<in> set allowedTypes)
   \<and> (\<forall>b\<in>set (batches (run evs initialState)).
         \<forall>f\<in>set (readers b). ftype f \<in> set allowedTypes)
   \<and> set (uploadedImages (handleRemoveImage i s)) \<subseteq> set (uploadedImages s)"
proof -
  have "typesAllowed (run evs initialState)"
    using initial_inv by (rule run_inv)
  then show ?thesis
    by (auto simp: typesAllowed_def list_all_iff handleRemoveImage_def)
qed

lemma onePngRead_run:
  "run onePngRead initialState =
     initialState\<lparr>uploadedImages := [imageA],
       batches := [\<lparr>files_length = 1, newImages = [imageA], readers = []\<rparr>]\<rparr>"
  by (simp add: run_def onePngRead_def handleFileChange_def forEachFile_def onload_def
        initialState_def allowedTypes_def pngFile_def imageA_def encoded_def Let_def)

theorem collection_types_allowed_witness:
  "uploadedImages (run onePngRead initialState) = [imageA]
   \<and> mimeType imageA \<in> set allowedTypes"
  using collection_types_allowed[of onePngRead] onePngRead_run
  by simp

lemma handleFileChange_clears_error: "error (handleFileChange (Some fs) s) = None"
  by (simp add: handleFileChange_def split: prod.splits)

text \<open>
  C1 on the code, for a batch of a PNG file and a GIF file selected with an empty
  collection. The loop does produce the message naming \<open>image/gif\<close> and starts a reader
  for the PNG file only, but \<open>setError(null)\<close> after the loop leaves no message (as
  after every selection); and once the PNG file is read, \<open>newImages\<close> holds one record
  against a \<open>files.length\<close> of two, so the collection stays empty, with no reader left
  to fire.
\<close>

theorem rejected_file_loses_batch:
  "foldl (forEachFile [] []) (None, []) [pngFile ''a.png'', gifFile ''b.gif''] =
     (Some ''File type image/gif is not supported. Please use JPG, PNG, or WEBP.'',
      [pngFile ''a.png''])
   \<and> error (handleFileChange (Some fs) s) = None
   \<and> run pngAndGifRead initialState =
       initialState\<lparr>batches := [\<lparr>files_length = 2, newImages = [imageA], readers = []\<rparr>]\<rparr>
   \<and> uploadedImages (run pngAndGifRead initialState) = []
   \<and> error (run pngAndGifRead initialState) = None"
proof -
  have r: "run pngAndGifRead initialState =
       initialState\<lparr>batches := [\<lparr>files_length = 2, newImages = [imageA], readers = []\<rparr>]\<rparr>"
    by (simp add: run_def pngAndGifRead_def handleFileChange_def forEachFile_def onload_def
          initialState_def allowedTypes_def pngFile_def gifFile_def imageA_def encoded_def
          Let_def)
  have l: "foldl (forEachFile [] []) (None, []) [pngFile ''a.png'', gifFile ''b.gif''] =
     (Some ''File type image/gif is not supported. Please use JPG, PNG, or WEBP.'',
      [pngFile ''a.png''])"
    by (simp add: forEachFile_def allowedTypes_def pngFile_def gifFile_def)
  show ?thesis
    using r l handleFileChange_clears_error[of fs s] by (simp add: initialState_def)
qed

text \<open>
  C2 on the code. Six PNG files selected in one batch with an empty collection all pass
  the cap check, since \<open>newImages\<close> is still empty while the loop runs; once all six are
  read the collection holds six records. With five records accepted, a further file
  starts no reader and leaves the five unchanged, and no message remains.
\<close>

theorem cap_exceeded_by_one_batch:
  "handleFileChange (Some sixFiles) initialState =
     initialState\<lparr>batches := [\<lparr>files_length = 6, newImages = [], readers = sixFiles\<rparr>]\<rparr>
   \<and> length (uploadedImages (run sixPngRead initialState)) = 6
   \<and> handleFileChange (Some [pngFile ''6.png'']) fiveAccepted =
       fiveAccepted\<lparr>batches := [\<lparr>files_length = 1, newImages = [], readers = []\<rparr>]\<rparr>
   \<and> error (handleFileChange (Some [pngFile ''6.png'']) fiveAccepted) = None"
proof -
  have a: "handleFileChange (Some sixFiles) initialState =
      initialState\<lparr>batches := [\<lparr>files_length = 6, newImages = [], readers = sixFiles\<rparr>]\<rparr>"
    by (simp add: handleFileChange_def forEachFile_def sixFiles_def initialState_def
          allowedTypes_def pngFile_def)
  have b: "length (uploadedImages (run sixPngRead initialState)) = 6"
    by (simp add: run_def sixPngRead_def a)
       (simp add: onload_def sixFiles_def initialState_def Let_def)
  have c: "handleFileChange (Some [pngFile ''6.png'']) fiveAccepted =
       fiveAccepted\<lparr>batches := [\<lparr>files_length = 1, newImages = [], readers = []\<rparr>]\<rparr>"
    by (simp add: handleFileChange_def forEachFile_def fiveAccepted_def initialState_def)
  have d: "error (handleFileChange (Some [pngFile ''6.png'']) fiveAccepted) = None"
    by (rule handleFileChange_clears_error)
  from a b c d show ?thesis by blast
qed

end
